theory Spec2Isabelle
  imports Main "HOL-Library.Option_ord"
begin

section \<open>Data model (convex/schema.ts)\<close>

text \<open>
  Documents are modelled as records, literal unions as datatypes. Timestamps and
  positions are JavaScript numbers (IEEE doubles) in the source; here they are the
  integers among the doubles (milliseconds, list positions), and the one sum the code
  computes on them is rounded as a double is (\<open>jsAdd\<close> below). Strings are lists of characters (code units), so \<open>length\<close> is the
  source's \<open>.length\<close>. Document ids are natural numbers handed out by the store.
\<close>

datatype TaskStatus = StPending | StInProgress | StCompleted

datatype TaskPriority = PrLow | PrMedium | PrHigh

datatype TaskActivityAction =
  ActCreated | ActUpdated | ActCompleted | ActDeleted | ActStatusChanged | ActPriorityChanged

text \<open>The \<open>changes\<close> payload of an activity record: the \<open>{from, to}\<close> objects built in
  the update endpoint.\<close>

datatype changes =
  StatusChange TaskStatus TaskStatus
| PriorityChange TaskPriority TaskPriority

record task =
  t_userId :: string
  t_title :: string
  t_description :: "string option"
  t_status :: TaskStatus
  t_priority :: TaskPriority
  t_dueDate :: "int option"
  t_completedAt :: "int option"
  t_position :: int
  t_tags :: "string list option"
  t_createdAt :: int
  t_updatedAt :: int

record taskComment =
  c_taskId :: nat
  c_userId :: string
  c_content :: string
  c_createdAt :: int
  c_updatedAt :: int

record taskActivity =
  a_taskId :: nat
  a_userId :: string
  a_action :: TaskActivityAction
  a_changes :: "changes option"
  a_createdAt :: int

datatype Theme = ThLight | ThDark | ThSystem

datatype DefaultView = VwList | VwKanban

datatype SortBy = SbCreatedAt | SbDueDate | SbPriority | SbPosition

datatype SortOrder = SoAsc | SoDesc

record userPrefs =
  p_userId :: string
  p_theme :: Theme
  p_defaultView :: DefaultView
  p_sortBy :: SortBy
  p_sortOrder :: SortOrder
  p_showCompletedTasks :: bool
  p_notificationsEnabled :: bool
  p_createdAt :: int
  p_updatedAt :: int

datatype ThreadStatus = TsActive | TsArchived

record thread =
  th_userId :: string
  th_title :: "string option"
  th_status :: ThreadStatus
  th_lastMessageAt :: "int option"
  th_createdAt :: int
  th_updatedAt :: int

datatype MessageRole = RoUser | RoAssistant | RoSystem

text \<open>The \<open>metadata\<close> of a message is \<open>any\<close> in the source; a string stands for it.\<close>

record message =
  m_threadId :: nat
  m_userId :: string
  m_role :: MessageRole
  m_content :: string
  m_metadata :: "string option"
  m_createdAt :: int

section \<open>The entity store and the call context\<close>

text \<open>
  The store is the external database. A table is the list of its documents with their
  ids, in insertion order. \<open>ctx.db.get\<close> is a lookup, \<open>ctx.db.insert\<close> appends under
  a fresh id, \<open>ctx.db.patch\<close> rewrites some fields of one document and
  \<open>ctx.db.delete\<close> removes it; the store rejects a patch or a delete of a document
  that does not exist.
\<close>

type_synonym 'a table = "(nat \<times> 'a) list"

record store =
  tasks :: "task table"
  taskComments :: "taskComment table"
  taskActivities :: "taskActivity table"
  userPreferences :: "userPrefs table"
  threads :: "thread table"
  messages :: "message table"
  nextId :: nat

text \<open>What \<open>rateLimiter.limit\<close> answers: \<open>ok\<close>, or not \<open>ok\<close> with \<open>retryAfter\<close>.\<close>

datatype RateLimitStatus = RlOk | RlDenied int

text \<open>
  The context of one call: the caller resolved by \<open>authComponent.getAuthUser\<close> (if any),
  the decision of the rate limiter for a named bucket and a key, and the value of
  \<open>Date.now()\<close>.
\<close>

record ctx =
  authUser :: "string option"
  limit :: "string \<Rightarrow> string \<Rightarrow> RateLimitStatus"
  now :: int

text \<open>Every \<open>throw new Error(...)\<close> of the source is a value of this type; \<open>StoreError\<close>
  is a write rejected by the store itself.\<close>

datatype error =
  NotAuthenticated
| RateLimitExceeded int
| NotFound string
| NotAuthorized string
| ReorderNotFound nat
| ReorderNotAuthorized nat
| ValidationFailed string
| DomainError string
| StoreError

type_synonym 'a action = "store \<Rightarrow> (error + 'a) \<times> store"

definition returnE :: "'a \<Rightarrow> 'a action" where
  "returnE x s = (Inr x, s)"

definition throwE :: "error \<Rightarrow> 'a action" where
  "throwE e s = (Inl e, s)"

text \<open>Sequencing two steps: a step that throws ends the call, and the store stays as the
  steps before it left it.\<close>

definition await :: "'a action \<Rightarrow> ('a \<Rightarrow> 'b action) \<Rightarrow> 'b action" where
  "await m f s = (case m s of (Inl e, s') \<Rightarrow> (Inl e, s') | (Inr x, s') \<Rightarrow> f x s')"

definition db_get :: "'a table \<Rightarrow> nat \<Rightarrow> 'a option" where
  "db_get tbl i = map_of tbl i"

definition db_patch :: "'a table \<Rightarrow> nat \<Rightarrow> ('a \<Rightarrow> 'a) \<Rightarrow> 'a table option" where
  "db_patch tbl i f =
     (case map_of tbl i of
        None \<Rightarrow> None
      | Some _ \<Rightarrow> Some (map (\<lambda>(j, d). if j = i then (j, f d) else (j, d)) tbl))"

definition db_delete :: "'a table \<Rightarrow> nat \<Rightarrow> 'a table option" where
  "db_delete tbl i =
     (case map_of tbl i of
        None \<Rightarrow> None
      | Some _ \<Rightarrow> Some (filter (\<lambda>(j, d). j \<noteq> i) tbl))"

section \<open>JavaScript truthiness\<close>

text \<open>An absent value, the empty string and the number 0 are falsy; every array is
  truthy.\<close>

definition truthyString :: "string option \<Rightarrow> bool" where
  "truthyString x = (case x of None \<Rightarrow> False | Some str \<Rightarrow> str \<noteq> [])"

text \<open>\<open>a || b\<close> on an optional string \<open>a\<close>.\<close>

definition orElse :: "string option \<Rightarrow> string \<Rightarrow> string" where
  "orElse x d = (case x of None \<Rightarrow> d | Some str \<Rightarrow> if str \<noteq> [] then str else d)"

definition truthyNumber :: "int option \<Rightarrow> bool" where
  "truthyNumber x = (case x of None \<Rightarrow> False | Some n \<Rightarrow> n \<noteq> 0)"

definition truthyArray :: "'a list option \<Rightarrow> bool" where
  "truthyArray x = (case x of None \<Rightarrow> False | Some _ \<Rightarrow> True)"

section \<open>JavaScript numbers\<close>

text \<open>
  A double has a significand of 53 bits. Every integer of magnitude up to \<open>2^53\<close> is a
  double; a larger integer is a double only if it is a multiple of the power of two
  that leaves 53 significant bits, and otherwise rounds to the nearest such multiple,
  to the one with the even significand when it lies halfway. \<open>bitLength n\<close> is the
  number of binary digits of \<open>n\<close>; \<open>toDouble\<close> is that rounding, and \<open>a + b\<close> on
  two integer-valued doubles is the exact sum rounded. (A sum beyond the largest finite
  double would be infinite; adding 1 to a double never gets there.)
\<close>

function bitLength :: "int \<Rightarrow> nat" where
  "bitLength n = (if n \<le> 0 then 0 else Suc (bitLength (n div 2)))"
  by pat_completeness auto
termination
  by (relation "measure nat") auto

declare bitLength.simps [simp del]

definition toDouble :: "int \<Rightarrow> int" where
  "toDouble n =
     (if \<bar>n\<bar> \<le> 2 ^ 53 then n
      else
        (let e = bitLength \<bar>n\<bar> - 53;
             q = \<bar>n\<bar> div 2 ^ e;
             r = \<bar>n\<bar> mod 2 ^ e;
             half = 2 ^ (e - 1);
             m = (if r > half \<or> (r = half \<and> odd q) then q + 1 else q)
         in sgn n * m * 2 ^ e))"

definition jsAdd :: "int \<Rightarrow> int \<Rightarrow> int" where
  "jsAdd a b = toDouble (a + b)"

section \<open>Record access layer: tasks (convex/db/tasks.ts)\<close>

record CreateTaskArgs =
  ca_userId :: string
  ca_title :: string
  ca_description :: "string option"
  ca_status :: "TaskStatus option"
  ca_priority :: "TaskPriority option"
  ca_dueDate :: "int option"
  ca_position :: int
  ca_tags :: "string list option"

text \<open>An absent field of \<open>UpdateTaskArgs\<close> is \<open>None\<close>: the patch leaves that field of
  the document as it is.\<close>

record UpdateTaskArgs =
  ua_title :: "string option"
  ua_description :: "string option"
  ua_status :: "TaskStatus option"
  ua_priority :: "TaskPriority option"
  ua_dueDate :: "int option"
  ua_completedAt :: "int option"
  ua_position :: "int option"
  ua_tags :: "string list option"

definition createTask :: "ctx \<Rightarrow> CreateTaskArgs \<Rightarrow> nat action" where
  "createTask c args s =
     (let i = nextId s;
          doc = \<lparr> t_userId = ca_userId args,
                  t_title = ca_title args,
                  t_description = ca_description args,
                  t_status = (case ca_status args of None \<Rightarrow> StPending | Some st \<Rightarrow> st),
                  t_priority = (case ca_priority args of None \<Rightarrow> PrMedium | Some p \<Rightarrow> p),
                  t_dueDate = ca_dueDate args,
                  t_completedAt = None,
                  t_position = ca_position args,
                  t_tags = ca_tags args,
                  t_createdAt = now c,
                  t_updatedAt = now c \<rparr>
      in (Inr i, s\<lparr> tasks := tasks s @ [(i, doc)], nextId := Suc i \<rparr>))"

definition getTaskById :: "store \<Rightarrow> nat \<Rightarrow> task option" where
  "getTaskById s i = db_get (tasks s) i"

text \<open>The \<open>by_user\<close> index with \<open>order("desc")\<close>: newest first.\<close>

definition getTasksByUser :: "store \<Rightarrow> string \<Rightarrow> task table" where
  "getTasksByUser s uid = rev (filter (\<lambda>(i, t). t_userId t = uid) (tasks s))"

definition getTasksByUserAndStatus :: "store \<Rightarrow> string \<Rightarrow> TaskStatus \<Rightarrow> task table" where
  "getTasksByUserAndStatus s uid st =
     rev (filter (\<lambda>(i, t). t_userId t = uid \<and> t_status t = st) (tasks s))"

definition getMaxPositionForUser :: "store \<Rightarrow> string \<Rightarrow> int" where
  "getMaxPositionForUser s uid =
     (case map (\<lambda>(i, t). t_position t) (getTasksByUser s uid) of
        [] \<Rightarrow> 0
      | p # ps \<Rightarrow> fold max ps p)"





definition patchTask :: "UpdateTaskArgs \<Rightarrow> int \<Rightarrow> task \<Rightarrow> task" where
  "patchTask args n t =
     t\<lparr> t_title := (case ua_title args of None \<Rightarrow> t_title t | Some x \<Rightarrow> x),
        t_description := (case ua_description args of None \<Rightarrow> t_description t | Some x \<Rightarrow> Some x),
        t_status := (case ua_status args of None \<Rightarrow> t_status t | Some x \<Rightarrow> x),
        t_priority := (case ua_priority args of None \<Rightarrow> t_priority t | Some x \<Rightarrow> x),
        t_dueDate := (case ua_dueDate args of None \<Rightarrow> t_dueDate t | Some x \<Rightarrow> Some x),
        t_completedAt := (case ua_completedAt args of None \<Rightarrow> t_completedAt t | Some x \<Rightarrow> Some x),
        t_position := (case ua_position args of None \<Rightarrow> t_position t | Some x \<Rightarrow> x),
        t_tags := (case ua_tags args of None \<Rightarrow> t_tags t | Some x \<Rightarrow> Some x),
        t_updatedAt := n \<rparr>"

definition updateTask :: "ctx \<Rightarrow> nat \<Rightarrow> UpdateTaskArgs \<Rightarrow> unit action" where
  "updateTask c i args s =
     (case db_patch (tasks s) i (patchTask args (now c)) of
        None \<Rightarrow> (Inl StoreError, s)
      | Some tbl \<Rightarrow> (Inr (), s\<lparr> tasks := tbl \<rparr>))"

definition completeTask :: "ctx \<Rightarrow> nat \<Rightarrow> unit action" where
  "completeTask c i s =
     (case db_patch (tasks s) i
             (\<lambda>t. t\<lparr> t_status := StCompleted, t_completedAt := Some (now c), t_updatedAt := now c \<rparr>) of
        None \<Rightarrow> (Inl StoreError, s)
      | Some tbl \<Rightarrow> (Inr (), s\<lparr> tasks := tbl \<rparr>))"


record reorderUpdate =
  r_id :: nat
  r_position :: int

text \<open>
  \<open>Promise.all\<close> over one patch per update: every patch is issued, in the order of the
  batch; the call fails when the store rejects one of them, and the others stay written.
\<close>

fun patchPositions :: "int \<Rightarrow> reorderUpdate list \<Rightarrow> task table \<Rightarrow> bool \<times> task table" where
  "patchPositions n [] tbl = (True, tbl)"
| "patchPositions n (u # us) tbl =
     (case db_patch tbl (r_id u) (\<lambda>t. t\<lparr> t_position := r_position u, t_updatedAt := n \<rparr>) of
        None \<Rightarrow> (False, snd (patchPositions n us tbl))
      | Some tbl' \<Rightarrow> patchPositions n us tbl')"

definition batchUpdateTaskPositions :: "ctx \<Rightarrow> reorderUpdate list \<Rightarrow> unit action" where
  "batchUpdateTaskPositions c updates s =
     (case patchPositions (now c) updates (tasks s) of
        (ok, tbl) \<Rightarrow> (if ok then Inr () else Inl StoreError, s\<lparr> tasks := tbl \<rparr>))"

definition deleteTask :: "nat \<Rightarrow> unit action" where
  "deleteTask i s =
     (case db_delete (tasks s) i of
        None \<Rightarrow> (Inl StoreError, s)
      | Some tbl \<Rightarrow> (Inr (), s\<lparr> tasks := tbl \<rparr>))"

fun deleteAll :: "nat list \<Rightarrow> 'a table \<Rightarrow> bool \<times> 'a table" where
  "deleteAll [] tbl = (True, tbl)"
| "deleteAll (i # is) tbl =
     (case db_delete tbl i of
        None \<Rightarrow> (False, snd (deleteAll is tbl))
      | Some tbl' \<Rightarrow> deleteAll is tbl')"

definition deleteCompletedTasksByUser :: "string \<Rightarrow> nat action" where
  "deleteCompletedTasksByUser uid s =
     (let completedTasks = getTasksByUserAndStatus s uid StCompleted
      in case deleteAll (map fst completedTasks) (tasks s) of
           (ok, tbl) \<Rightarrow>
             (if ok then Inr (length completedTasks) else Inl StoreError, s\<lparr> tasks := tbl \<rparr>))"

section \<open>Record access layer: task activity (convex/db/taskActivity.ts)\<close>

record CreateTaskActivityArgs =
  aa_taskId :: nat
  aa_userId :: string
  aa_action :: TaskActivityAction
  aa_changes :: "changes option"

definition createTaskActivity :: "ctx \<Rightarrow> CreateTaskActivityArgs \<Rightarrow> nat action" where
  "createTaskActivity c args s =
     (let i = nextId s;
          doc = \<lparr> a_taskId = aa_taskId args,
                  a_userId = aa_userId args,
                  a_action = aa_action args,
                  a_changes = aa_changes args,
                  a_createdAt = now c \<rparr>
      in (Inr i, s\<lparr> taskActivities := taskActivities s @ [(i, doc)], nextId := Suc i \<rparr>))"








section \<open>Record access layer: task comments (convex/db/taskComments.ts)\<close>

record CreateTaskCommentArgs =
  cc_taskId :: nat
  cc_userId :: string
  cc_content :: string

definition createTaskComment :: "ctx \<Rightarrow> CreateTaskCommentArgs \<Rightarrow> nat action" where
  "createTaskComment c args s =
     (let i = nextId s;
          doc = \<lparr> c_taskId = cc_taskId args,
                  c_userId = cc_userId args,
                  c_content = cc_content args,
                  c_createdAt = now c,
                  c_updatedAt = now c \<rparr>
      in (Inr i, s\<lparr> taskComments := taskComments s @ [(i, doc)], nextId := Suc i \<rparr>))"

definition getTaskCommentById :: "store \<Rightarrow> nat \<Rightarrow> taskComment option" where
  "getTaskCommentById s i = db_get (taskComments s) i"




definition updateTaskComment :: "ctx \<Rightarrow> nat \<Rightarrow> string \<Rightarrow> unit action" where
  "updateTaskComment c i content s =
     (case db_patch (taskComments s) i (\<lambda>cm. cm\<lparr> c_content := content, c_updatedAt := now c \<rparr>) of
        None \<Rightarrow> (Inl StoreError, s)
      | Some tbl \<Rightarrow> (Inr (), s\<lparr> taskComments := tbl \<rparr>))"

definition deleteTaskComment :: "nat \<Rightarrow> unit action" where
  "deleteTaskComment i s =
     (case db_delete (taskComments s) i of
        None \<Rightarrow> (Inl StoreError, s)
      | Some tbl \<Rightarrow> (Inr (), s\<lparr> taskComments := tbl \<rparr>))"


section \<open>Record access layer: user preferences (second part of convex/db/taskActivity.ts)\<close>


record UpdateUserPreferencesArgs =
  up_theme :: "Theme option"
  up_defaultView :: "DefaultView option"
  up_sortBy :: "SortBy option"
  up_sortOrder :: "SortOrder option"
  up_showCompletedTasks :: "bool option"
  up_notificationsEnabled :: "bool option"









section \<open>Record access layer: threads (second part of convex/db/index.ts)\<close>















section \<open>Record access layer: messages (convex/db/messages.ts)\<close>










section \<open>Validation helpers (convex/helpers/validation.ts)\<close>

text \<open>The characters \<open>String.prototype.trim\<close> strips, among the code units below 256:
  tab, line feed, vertical tab, form feed, carriage return, space and no-break space.\<close>

definition isWhiteSpace :: "char \<Rightarrow> bool" where
  "isWhiteSpace ch =
     List.member [CHR 0x09, CHR 0x0A, CHR 0x0B, CHR 0x0C, CHR 0x0D, CHR 0x20, CHR 0xA0] ch"

definition trim :: "string \<Rightarrow> string" where
  "trim str = rev (dropWhile isWhiteSpace (rev (dropWhile isWhiteSpace str)))"

definition isValidTaskTitle :: "string \<Rightarrow> bool" where
  "isValidTaskTitle title = (length (trim title) > 0 \<and> length title \<le> 200)"

text \<open>\<open>!description\<close> holds for an absent description and for the empty string.\<close>

definition isValidTaskDescription :: "string option \<Rightarrow> bool" where
  "isValidTaskDescription description =
     (case description of
        None \<Rightarrow> True
      | Some d \<Rightarrow> if d = [] then True else length d \<le> 2000)"

definition isValidDueDate :: "int \<Rightarrow> int \<Rightarrow> bool \<Rightarrow> bool" where
  "isValidDueDate n dueDate allowPast = (if \<not> allowPast \<and> dueDate < n then False else True)"

definition isValidTaskTags :: "string list option \<Rightarrow> bool" where
  "isValidTaskTags tgs =
     (case tgs of
        None \<Rightarrow> True
      | Some ts \<Rightarrow>
          if length ts > 10 then False
          else list_all (\<lambda>tag. length (trim tag) > 0 \<and> length tag \<le> 50) ts)"

definition isValidCommentContent :: "string \<Rightarrow> bool" where
  "isValidCommentContent content = (length (trim content) > 0 \<and> length content \<le> 1000)"

record TaskInput =
  ti_title :: string
  ti_description :: "string option"
  ti_dueDate :: "int option"
  ti_tags :: "string list option"

record TaskValidationResult =
  valid :: bool
  errors :: "string list"

text \<open>\<open>input.dueDate && ...\<close>: an absent due date and the number 0 are both falsy.\<close>

definition validateTaskInput :: "int \<Rightarrow> TaskInput \<Rightarrow> TaskValidationResult" where
  "validateTaskInput n input =
     (let errs =
            (if \<not> isValidTaskTitle (ti_title input)
             then [''Title must be between 1 and 200 characters''] else [])
          @ (if \<not> isValidTaskDescription (ti_description input)
             then [''Description must be max 2000 characters''] else [])
          @ (case ti_dueDate input of
               None \<Rightarrow> []
             | Some d \<Rightarrow>
                 if d \<noteq> 0 \<and> \<not> isValidDueDate n d False
                 then [''Due date must be in the future''] else [])
          @ (if \<not> isValidTaskTags (ti_tags input)
             then [''Tags must be max 50 characters each, max 10 tags''] else [])
      in \<lparr> valid = (length errs = 0), errors = errs \<rparr>)"

text \<open>\<open>errors.join(", ")\<close>\<close>

fun joinErrors :: "string list \<Rightarrow> string" where
  "joinErrors [] = []"
| "joinErrors [e] = e"
| "joinErrors (e # es) = e @ '', '' @ joinErrors es"

section \<open>Endpoint layer: tasks (convex/endpoints/tasks.ts)\<close>

text \<open>
  A handler \<open>h\<close> exported by the module \<open>tasks\<close> is the function \<open>tasksH\<close> here
  (\<open>tasksCreate\<close> is \<open>tasks.create\<close>), and likewise for the task comments below. A
  handler takes the context and its arguments and runs on the store; the pair it returns
  is the value or the error of the call and the store the call leaves behind.
\<close>

record createArgs =
  cr_title :: string
  cr_description :: "string option"
  cr_priority :: "TaskPriority option"
  cr_dueDate :: "int option"
  cr_tags :: "string list option"

definition tasksCreate :: "ctx \<Rightarrow> createArgs \<Rightarrow> nat action" where
  "tasksCreate c args s =
     (case authUser c of
        None \<Rightarrow> throwE NotAuthenticated s
      | Some uid \<Rightarrow>
          (case limit c ''createTask'' uid of
             RlDenied retryAfter \<Rightarrow> throwE (RateLimitExceeded retryAfter) s
           | RlOk \<Rightarrow>
               (let validation = validateTaskInput (now c)
                      \<lparr> ti_title = cr_title args,
                        ti_description = cr_description args,
                        ti_dueDate = cr_dueDate args,
                        ti_tags = cr_tags args \<rparr>
                in if \<not> valid validation
                   then throwE (ValidationFailed (joinErrors (errors validation))) s
                   else
                     (let maxPosition = getMaxPositionForUser s uid
                      in await (createTask c
                                  \<lparr> ca_userId = uid,
                                    ca_title = cr_title args,
                                    ca_description = cr_description args,
                                    ca_status = None,
                                    ca_priority = cr_priority args,
                                    ca_dueDate = cr_dueDate args,
                                    ca_position = jsAdd maxPosition 1,
                                    ca_tags = cr_tags args \<rparr>)
                           (\<lambda>taskId.
                              await (createTaskActivity c
                                       \<lparr> aa_taskId = taskId,
                                         aa_userId = uid,
                                         aa_action = ActCreated,
                                         aa_changes = None \<rparr>)
                                (\<lambda>_. returnE taskId)) s))))"

record updateArgs =
  u_id :: nat
  u_title :: "string option"
  u_description :: "string option"
  u_status :: "TaskStatus option"
  u_priority :: "TaskPriority option"
  u_dueDate :: "int option"
  u_tags :: "string list option"

text \<open>\<open>changes.status\<close> and \<open>changes.priority\<close> of the update handler.\<close>

definition statusChange :: "updateArgs \<Rightarrow> task \<Rightarrow> changes option" where
  "statusChange args t =
     (case u_status args of
        None \<Rightarrow> None
      | Some st \<Rightarrow> if st \<noteq> t_status t then Some (StatusChange (t_status t) st) else None)"

definition priorityChange :: "updateArgs \<Rightarrow> task \<Rightarrow> changes option" where
  "priorityChange args t =
     (case u_priority args of
        None \<Rightarrow> None
      | Some p \<Rightarrow> if p \<noteq> t_priority t then Some (PriorityChange (t_priority t) p) else None)"

text \<open>\<open>updateData\<close>: the arguments without the id, and \<open>completedAt\<close> when the status is
  being set to completed from another status.\<close>

definition updateData :: "ctx \<Rightarrow> updateArgs \<Rightarrow> task \<Rightarrow> UpdateTaskArgs" where
  "updateData c args t =
     \<lparr> ua_title = u_title args,
       ua_description = u_description args,
       ua_status = u_status args,
       ua_priority = u_priority args,
       ua_dueDate = u_dueDate args,
       ua_completedAt =
         (if u_status args = Some StCompleted \<and> t_status t \<noteq> StCompleted
          then Some (now c) else None),
       ua_position = None,
       ua_tags = u_tags args \<rparr>"

text \<open>The activity record the update handler logs: the first branch that applies.\<close>

definition updateActivity :: "string \<Rightarrow> updateArgs \<Rightarrow> task \<Rightarrow> CreateTaskActivityArgs" where
  "updateActivity uid args t =
     (if u_status args = Some StCompleted
      then \<lparr> aa_taskId = u_id args, aa_userId = uid, aa_action = ActCompleted, aa_changes = None \<rparr>
      else if statusChange args t \<noteq> None
      then \<lparr> aa_taskId = u_id args, aa_userId = uid, aa_action = ActStatusChanged,
             aa_changes = statusChange args t \<rparr>
      else if priorityChange args t \<noteq> None
      then \<lparr> aa_taskId = u_id args, aa_userId = uid, aa_action = ActPriorityChanged,
             aa_changes = priorityChange args t \<rparr>
      else \<lparr> aa_taskId = u_id args, aa_userId = uid, aa_action = ActUpdated, aa_changes = None \<rparr>)"

text \<open>The condition under which the update handler validates at all, and the validation
  it then runs: the title checked is \<open>args.title || task.title\<close>.\<close>

definition validationRequested :: "updateArgs \<Rightarrow> bool" where
  "validationRequested args =
     (truthyString (u_title args) \<or> truthyString (u_description args)
      \<or> truthyNumber (u_dueDate args) \<or> truthyArray (u_tags args))"

definition updateValidation :: "ctx \<Rightarrow> updateArgs \<Rightarrow> task \<Rightarrow> TaskValidationResult" where
  "updateValidation c args t =
     validateTaskInput (now c)
       \<lparr> ti_title = orElse (u_title args) (t_title t),
         ti_description = u_description args,
         ti_dueDate = u_dueDate args,
         ti_tags = u_tags args \<rparr>"

definition tasksUpdate :: "ctx \<Rightarrow> updateArgs \<Rightarrow> nat action" where
  "tasksUpdate c args s =
     (case authUser c of
        None \<Rightarrow> throwE NotAuthenticated s
      | Some uid \<Rightarrow>
          (case limit c ''updateTask'' uid of
             RlDenied retryAfter \<Rightarrow> throwE (RateLimitExceeded retryAfter) s
           | RlOk \<Rightarrow>
               (case getTaskById s (u_id args) of
                  None \<Rightarrow> throwE (NotFound ''Task not found'') s
                | Some t \<Rightarrow>
                    if t_userId t \<noteq> uid
                    then throwE (NotAuthorized ''Not authorized to update this task'') s
                    else if validationRequested args \<and> \<not> valid (updateValidation c args t)
                    then throwE (ValidationFailed
                                   (joinErrors (errors (updateValidation c args t)))) s
                    else
                      await (updateTask c (u_id args) (updateData c args t))
                        (\<lambda>_. await (createTaskActivity c (updateActivity uid args t))
                               (\<lambda>_. returnE (u_id args))) s)))"

definition tasksComplete :: "ctx \<Rightarrow> nat \<Rightarrow> nat action" where
  "tasksComplete c i s =
     (case authUser c of
        None \<Rightarrow> throwE NotAuthenticated s
      | Some uid \<Rightarrow>
          (case limit c ''updateTask'' uid of
             RlDenied retryAfter \<Rightarrow> throwE (RateLimitExceeded retryAfter) s
           | RlOk \<Rightarrow>
               (case getTaskById s i of
                  None \<Rightarrow> throwE (NotFound ''Task not found'') s
                | Some t \<Rightarrow>
                    if t_userId t \<noteq> uid
                    then throwE (NotAuthorized ''Not authorized to complete this task'') s
                    else
                      await (completeTask c i)
                        (\<lambda>_. await (createTaskActivity c
                                      \<lparr> aa_taskId = i, aa_userId = uid,
                                        aa_action = ActCompleted, aa_changes = None \<rparr>)
                               (\<lambda>_. returnE i)) s)))"

text \<open>The \<open>for\<close> loop of the reorder handler: the first update whose task is missing or
  belongs to somebody else throws.\<close>

fun verifyOwnership :: "store \<Rightarrow> string \<Rightarrow> reorderUpdate list \<Rightarrow> error option" where
  "verifyOwnership s uid [] = None"
| "verifyOwnership s uid (u # us) =
     (case getTaskById s (r_id u) of
        None \<Rightarrow> Some (ReorderNotFound (r_id u))
      | Some t \<Rightarrow>
          if t_userId t \<noteq> uid then Some (ReorderNotAuthorized (r_id u))
          else verifyOwnership s uid us)"

definition tasksReorder :: "ctx \<Rightarrow> reorderUpdate list \<Rightarrow> bool action" where
  "tasksReorder c updates s =
     (case authUser c of
        None \<Rightarrow> throwE NotAuthenticated s
      | Some uid \<Rightarrow>
          (case limit c ''batchUpdatePositions'' uid of
             RlDenied retryAfter \<Rightarrow> throwE (RateLimitExceeded retryAfter) s
           | RlOk \<Rightarrow>
               (case verifyOwnership s uid updates of
                  Some e \<Rightarrow> throwE e s
                | None \<Rightarrow>
                    await (batchUpdateTaskPositions c updates) (\<lambda>_. returnE True) s)))"

definition tasksRemove :: "ctx \<Rightarrow> nat \<Rightarrow> bool action" where
  "tasksRemove c i s =
     (case authUser c of
        None \<Rightarrow> throwE NotAuthenticated s
      | Some uid \<Rightarrow>
          (case limit c ''deleteTask'' uid of
             RlDenied retryAfter \<Rightarrow> throwE (RateLimitExceeded retryAfter) s
           | RlOk \<Rightarrow>
               (case getTaskById s i of
                  None \<Rightarrow> throwE (NotFound ''Task not found'') s
                | Some t \<Rightarrow>
                    if t_userId t \<noteq> uid
                    then throwE (NotAuthorized ''Not authorized to delete this task'') s
                    else
                      await (createTaskActivity c
                               \<lparr> aa_taskId = i, aa_userId = uid,
                                 aa_action = ActDeleted, aa_changes = None \<rparr>)
                        (\<lambda>_. await (deleteTask i) (\<lambda>_. returnE True)) s)))"

definition tasksDeleteCompleted :: "ctx \<Rightarrow> nat action" where
  "tasksDeleteCompleted c s =
     (case authUser c of
        None \<Rightarrow> throwE NotAuthenticated s
      | Some uid \<Rightarrow>
          (case limit c ''deleteTask'' uid of
             RlDenied retryAfter \<Rightarrow> throwE (RateLimitExceeded retryAfter) s
           | RlOk \<Rightarrow>
               await (deleteCompletedTasksByUser uid) (\<lambda>deletedCount. returnE deletedCount) s))"

section \<open>Endpoint layer: task comments (second part of convex/endpoints/agent.ts)\<close>

definition commentsCreate :: "ctx \<Rightarrow> nat \<Rightarrow> string \<Rightarrow> nat action" where
  "commentsCreate c taskId content s =
     (case authUser c of
        None \<Rightarrow> throwE NotAuthenticated s
      | Some uid \<Rightarrow>
          (case limit c ''createComment'' uid of
             RlDenied retryAfter \<Rightarrow> throwE (RateLimitExceeded retryAfter) s
           | RlOk \<Rightarrow>
               (case getTaskById s taskId of
                  None \<Rightarrow> throwE (NotFound ''Task not found'') s
                | Some t \<Rightarrow>
                    if t_userId t \<noteq> uid
                    then throwE (NotAuthorized ''Not authorized to comment on this task'') s
                    else if \<not> isValidCommentContent content
                    then throwE (ValidationFailed
                                   ''Comment content must be between 1 and 1000 characters'') s
                    else
                      await (createTaskComment c
                               \<lparr> cc_taskId = taskId, cc_userId = uid, cc_content = content \<rparr>)
                        (\<lambda>commentId. returnE commentId) s)))"

definition commentsUpdate :: "ctx \<Rightarrow> nat \<Rightarrow> string \<Rightarrow> nat action" where
  "commentsUpdate c i content s =
     (case authUser c of
        None \<Rightarrow> throwE NotAuthenticated s
      | Some uid \<Rightarrow>
          (case limit c ''updateComment'' uid of
             RlDenied retryAfter \<Rightarrow> throwE (RateLimitExceeded retryAfter) s
           | RlOk \<Rightarrow>
               (case getTaskCommentById s i of
                  None \<Rightarrow> throwE (NotFound ''Comment not found'') s
                | Some cm \<Rightarrow>
                    if c_userId cm \<noteq> uid
                    then throwE (NotAuthorized ''Not authorized to update this comment'') s
                    else if \<not> isValidCommentContent content
                    then throwE (ValidationFailed
                                   ''Comment content must be between 1 and 1000 characters'') s
                    else await (updateTaskComment c i content) (\<lambda>_. returnE i) s)))"

definition commentsRemove :: "ctx \<Rightarrow> nat \<Rightarrow> bool action" where
  "commentsRemove c i s =
     (case authUser c of
        None \<Rightarrow> throwE NotAuthenticated s
      | Some uid \<Rightarrow>
          (case limit c ''deleteComment'' uid of
             RlDenied retryAfter \<Rightarrow> throwE (RateLimitExceeded retryAfter) s
           | RlOk \<Rightarrow>
               (case getTaskCommentById s i of
                  None \<Rightarrow> throwE (NotFound ''Comment not found'') s
                | Some cm \<Rightarrow>
                    if c_userId cm \<noteq> uid
                    then throwE (NotAuthorized ''Not authorized to delete this comment'') s
                    else await (deleteTaskComment i) (\<lambda>_. returnE True) s)))"

section \<open>Properties stated over the model\<close>

text \<open>The positions of the tasks a user owns, and their maximum, with 0 for a user
  without tasks.\<close>

definition userPositions :: "store \<Rightarrow> string \<Rightarrow> int set" where
  "userPositions s uid =
     set (map (\<lambda>(i, t). t_position t) (filter (\<lambda>(i, t). t_userId t = uid) (tasks s)))"

definition priorMaxPosition :: "store \<Rightarrow> string \<Rightarrow> int" where
  "priorMaxPosition s uid = (if userPositions s uid = {} then 0 else Max (userPositions s uid))"

text \<open>An outcome is unauthorized when it is one of the \<open>Not authorized to ...\<close> errors.\<close>

definition isUnauthorized :: "error + 'a \<Rightarrow> bool" where
  "isUnauthorized r = (case r of Inl (NotAuthorized msg) \<Rightarrow> True | _ \<Rightarrow> False)"


section \<open>Example data\<close>

text \<open>Alice is the caller. In \<open>exampleCtx\<close> every rate-limit bucket admits her; in
  \<open>deniedCtx\<close> every bucket denies her with a retry delay of 2000 ms.\<close>

definition exampleCtx :: ctx where
  "exampleCtx = \<lparr> authUser = Some ''alice'', limit = (\<lambda>bucket key. RlOk), now = 5000 \<rparr>"

definition deniedCtx :: ctx where
  "deniedCtx =
     \<lparr> authUser = Some ''alice'', limit = (\<lambda>bucket key. RlDenied 2000), now = 5000 \<rparr>"

definition aliceTask :: task where
  "aliceTask =
     \<lparr> t_userId = ''alice'', t_title = ''Buy milk'', t_description = None,
       t_status = StCompleted, t_priority = PrHigh, t_dueDate = None,
       t_completedAt = Some 1000, t_position = 1, t_tags = None,
       t_createdAt = 500, t_updatedAt = 1000 \<rparr>"

definition bobTask :: task where
  "bobTask =
     \<lparr> t_userId = ''bob'', t_title = ''Pay rent'', t_description = None,
       t_status = StPending, t_priority = PrMedium, t_dueDate = None,
       t_completedAt = None, t_position = 1, t_tags = None,
       t_createdAt = 600, t_updatedAt = 600 \<rparr>"

definition bobComment :: taskComment where
  "bobComment =
     \<lparr> c_taskId = 1, c_userId = ''bob'', c_content = ''tomorrow'',
       c_createdAt = 700, c_updatedAt = 700 \<rparr>"

text \<open>Task 0 is Alice's and completed, task 1 is Bob's, comment 2 is Bob's; nothing has
  been logged yet.\<close>

definition exampleStore :: store where
  "exampleStore =
     \<lparr> tasks = [(0, aliceTask), (1, bobTask)], taskComments = [(2, bobComment)],
       taskActivities = [], userPreferences = [], threads = [], messages = [], nextId = 3 \<rparr>"

text \<open>The same store after Alice has reordered her task 0 to position \<open>2^53\<close>.\<close>

definition farStore :: store where
  "farStore =
     exampleStore\<lparr> tasks := [(0, aliceTask\<lparr> t_position := 9007199254740992 \<rparr>), (1, bobTask)] \<rparr>"

definition noChange :: updateArgs where
  "noChange =
     \<lparr> u_id = 0, u_title = None, u_description = None, u_status = None,
       u_priority = None, u_dueDate = None, u_tags = None \<rparr>"

definition newTaskArgs :: createArgs where
  "newTaskArgs =
     \<lparr> cr_title = ''Call mum'', cr_description = None, cr_priority = None,
       cr_dueDate = None, cr_tags = None \<rparr>"

definition mixedBatch :: "reorderUpdate list" where
  "mixedBatch = [\<lparr> r_id = 0, r_position = 7 \<rparr>, \<lparr> r_id = 1, r_position = 8 \<rparr>]"

definition darkTheme :: UpdateUserPreferencesArgs where
  "darkTheme =
     \<lparr> up_theme = Some ThDark, up_defaultView = None, up_sortBy = None, up_sortOrder = None,
       up_showCompletedTasks = None, up_notificationsEnabled = None \<rparr>"

section \<open>Auxiliary facts\<close>

lemmas example_defs = exampleCtx_def deniedCtx_def aliceTask_def bobTask_def bobComment_def
  exampleStore_def farStore_def noChange_def newTaskArgs_def mixedBatch_def darkTheme_def

lemmas model_defs = tasksUpdate_def tasksCreate_def tasksComplete_def tasksReorder_def
  tasksRemove_def tasksDeleteCompleted_def commentsCreate_def commentsUpdate_def
  commentsRemove_def await_def returnE_def throwE_def getTaskById_def getTaskCommentById_def
  db_get_def db_patch_def db_delete_def updateTask_def completeTask_def createTask_def
  createTaskActivity_def deleteTask_def deleteCompletedTasksByUser_def
  getTasksByUserAndStatus_def getTasksByUser_def getMaxPositionForUser_def
  validationRequested_def updateValidation_def validateTaskInput_def truthyString_def
  truthyNumber_def truthyArray_def orElse_def updateData_def updateActivity_def
  statusChange_def priorityChange_def patchTask_def isValidTaskTitle_def
  isValidTaskDescription_def isValidTaskTags_def isValidDueDate_def trim_def isWhiteSpace_def
  batchUpdateTaskPositions_def createTaskComment_def updateTaskComment_def
  deleteTaskComment_def isValidCommentContent_def

lemma map_of_patch:
  "map_of (map (\<lambda>(j, d). if j = i then (j, f d) else (j, d)) tbl) k
     = (if k = i then map_option f (map_of tbl k) else map_of tbl k)"
  by (induction tbl) auto

lemma db_patch_Some:
  "map_of tbl i = Some d \<Longrightarrow>
     \<exists>tbl'. db_patch tbl i f = Some tbl' \<and> map_of tbl' i = Some (f d)"
  by (simp add: db_patch_def map_of_patch)

lemma updateTask_ok:
  assumes "getTaskById s i = Some t"
  shows "\<exists>tbl. updateTask c i a s = (Inr (), s\<lparr> tasks := tbl \<rparr>)
           \<and> map_of tbl i = Some (patchTask a (now c) t)"
  using assms db_patch_Some [of "tasks s" i t "patchTask a (now c)"]
  by (auto simp: updateTask_def getTaskById_def db_get_def)

text \<open>What a call of the update handler does once it is past its four checks.\<close>

lemma tasksUpdate_ok:
  assumes "authUser c = Some uid" "limit c ''updateTask'' uid = RlOk"
    "getTaskById s (u_id args) = Some t" "t_userId t = uid"
    "validationRequested args \<longrightarrow> valid (updateValidation c args t)"
  shows "\<exists>tbl. tasksUpdate c args s =
           (Inr (u_id args),
            s\<lparr> tasks := tbl,
               taskActivities := taskActivities s @
                 [(nextId s, \<lparr> a_taskId = aa_taskId (updateActivity uid args t),
                              a_userId = aa_userId (updateActivity uid args t),
                              a_action = aa_action (updateActivity uid args t),
                              a_changes = aa_changes (updateActivity uid args t),
                              a_createdAt = now c \<rparr>)],
               nextId := Suc (nextId s) \<rparr>)
          \<and> map_of tbl (u_id args) = Some (patchTask (updateData c args t) (now c) t)"
proof -
  obtain tbl where
    u: "updateTask c (u_id args) (updateData c args t) s = (Inr (), s\<lparr> tasks := tbl \<rparr>)"
    and m: "map_of tbl (u_id args) = Some (patchTask (updateData c args t) (now c) t)"
    using updateTask_ok [OF assms(3)] by blast
  show ?thesis
    using assms u m
    by (auto simp: tasksUpdate_def await_def returnE_def throwE_def createTaskActivity_def
          Let_def)
qed

text \<open>A call of the update handler that succeeds has passed the four checks.\<close>

lemma tasksUpdate_Inr:
  assumes "tasksUpdate c args s = (Inr r, s')"
  shows "\<exists>uid t. authUser c = Some uid \<and> limit c ''updateTask'' uid = RlOk
           \<and> getTaskById s (u_id args) = Some t \<and> t_userId t = uid
           \<and> (validationRequested args \<longrightarrow> valid (updateValidation c args t))"
  using assms
  by (auto simp: tasksUpdate_def await_def returnE_def throwE_def
      split: option.splits RateLimitStatus.splits if_splits)

lemma getMaxPositionForUser_eq: "getMaxPositionForUser s uid = priorMaxPosition s uid"
proof (cases "map (\<lambda>(i, t). t_position t) (getTasksByUser s uid)")
  case Nil
  then have "userPositions s uid = {}"
    by (simp add: userPositions_def getTasksByUser_def)
  with Nil show ?thesis
    by (simp add: getMaxPositionForUser_def priorMaxPosition_def)
next
  case (Cons p ps)
  have "set (p # ps) = userPositions s uid"
    unfolding Cons [symmetric] by (simp add: userPositions_def getTasksByUser_def)
  moreover have "fold max ps p = Max (set (p # ps))"
    using Max.set_eq_fold [of p ps] by simp
  ultimately show ?thesis
    using Cons by (auto simp: getMaxPositionForUser_def priorMaxPosition_def)
qed

lemma jsAdd_exact: "\<bar>a + b\<bar> \<le> 2 ^ 53 \<Longrightarrow> jsAdd a b = a + b"
  by (simp add: jsAdd_def toDouble_def)

lemma jsAdd_at_2_53: "jsAdd 9007199254740992 1 = 9007199254740992"
  by code_simp

lemma verifyOwnership_bad:
  assumes "u \<in> set updates"
    and "getTaskById s (r_id u) = None
         \<or> (\<exists>t. getTaskById s (r_id u) = Some t \<and> t_userId t \<noteq> uid)"
  shows "verifyOwnership s uid updates \<noteq> None"
  using assms by (induction updates) (auto split: option.splits)

section \<open>C1: the completion timestamp and the status\<close>

text \<open>
  C1 says that after any update or complete call \<open>completedAt\<close> is set exactly when the
  status is completed, also when an update moves the status away from completed. The
  update handler writes \<open>completedAt\<close> when the status becomes completed and never
  clears it: Alice reopens her completed task 0 (completed at 1000), the call succeeds,
  and the stored task is pending with \<open>completedAt\<close> still 1000.
\<close>

theorem update_reopen_keeps_completedAt:
  "tasksUpdate exampleCtx (noChange\<lparr> u_status := Some StPending \<rparr>) exampleStore
     = (Inr 0,
        exampleStore
          \<lparr> tasks := [(0, aliceTask\<lparr> t_status := StPending, t_updatedAt := 5000 \<rparr>),
                       (1, bobTask)],
            taskActivities :=
              [(3, \<lparr> a_taskId = 0, a_userId = ''alice'', a_action = ActStatusChanged,
                      a_changes = Some (StatusChange StCompleted StPending),
                      a_createdAt = 5000 \<rparr>)],
            nextId := 4 \<rparr>)
   \<and> t_status (aliceTask\<lparr> t_status := StPending, t_updatedAt := 5000 \<rparr>) = StPending
   \<and> t_completedAt (aliceTask\<lparr> t_status := StPending, t_updatedAt := 5000 \<rparr>) = Some 1000"
  by (simp add: model_defs example_defs)

section \<open>C2: the ownership check\<close>

text \<open>
  C2 as stated: every mutating operation called by an authenticated user on an existing
  record of another owner fails with an Unauthorized error. The rate-limit bucket is
  consulted before the record is fetched, so when the bucket denies the call the error is
  the rate-limit error: Alice, denied by her bucket, updates Bob's task 1.
\<close>

theorem ownership_check_rate_limited_counterexample:
  "authUser deniedCtx = Some ''alice''
   \<and> getTaskById exampleStore 1 = Some bobTask \<and> t_userId bobTask = ''bob''
   \<and> tasksUpdate deniedCtx (noChange\<lparr> u_id := 1 \<rparr>) exampleStore
        = (Inl (RateLimitExceeded 2000), exampleStore)
   \<and> \<not> isUnauthorized (fst (tasksUpdate deniedCtx (noChange\<lparr> u_id := 1 \<rparr>) exampleStore))"
  by (simp add: model_defs example_defs isUnauthorized_def)

text \<open>
  C2, amended: task update, complete and delete and comment create (which refer to a
  task) and comment update and delete (which refer to a comment), called by an
  authenticated user on an existing record whose owner is a different user, fail and
  leave the store exactly as it was, whatever the other arguments: with the operation's
  \<open>Not authorized\<close> error when the operation's rate-limit bucket admits the call, and
  with the rate-limit error carrying the retry-after duration when the bucket denies it.
\<close>

theorem ownership_check:
  assumes "authUser c = Some uid"
  shows "(getTaskById s (u_id args) = Some t \<and> t_userId t \<noteq> uid \<longrightarrow>
            tasksUpdate c args s =
              (Inl (case limit c ''updateTask'' uid of
                      RlOk \<Rightarrow> NotAuthorized ''Not authorized to update this task''
                    | RlDenied retryAfter \<Rightarrow> RateLimitExceeded retryAfter), s)
          \<and> tasksComplete c (u_id args) s =
              (Inl (case limit c ''updateTask'' uid of
                      RlOk \<Rightarrow> NotAuthorized ''Not authorized to complete this task''
                    | RlDenied retryAfter \<Rightarrow> RateLimitExceeded retryAfter), s)
          \<and> tasksRemove c (u_id args) s =
              (Inl (case limit c ''deleteTask'' uid of
                      RlOk \<Rightarrow> NotAuthorized ''Not authorized to delete this task''
                    | RlDenied retryAfter \<Rightarrow> RateLimitExceeded retryAfter), s)
          \<and> commentsCreate c (u_id args) content s =
              (Inl (case limit c ''createComment'' uid of
                      RlOk \<Rightarrow> NotAuthorized ''Not authorized to comment on this task''
                    | RlDenied retryAfter \<Rightarrow> RateLimitExceeded retryAfter), s))
       \<and> (getTaskCommentById s j = Some cm \<and> c_userId cm \<noteq> uid \<longrightarrow>
            commentsUpdate c j content s =
              (Inl (case limit c ''updateComment'' uid of
                      RlOk \<Rightarrow> NotAuthorized ''Not authorized to update this comment''
                    | RlDenied retryAfter \<Rightarrow> RateLimitExceeded retryAfter), s)
          \<and> commentsRemove c j s =
              (Inl (case limit c ''deleteComment'' uid of
                      RlOk \<Rightarrow> NotAuthorized ''Not authorized to delete this comment''
                    | RlDenied retryAfter \<Rightarrow> RateLimitExceeded retryAfter), s))"
proof -
  have tasks_part:
    "tasksUpdate c args s =
       (Inl (case limit c ''updateTask'' uid of
               RlOk \<Rightarrow> NotAuthorized ''Not authorized to update this task''
             | RlDenied retryAfter \<Rightarrow> RateLimitExceeded retryAfter), s)
     \<and> tasksComplete c (u_id args) s =
       (Inl (case limit c ''updateTask'' uid of
               RlOk \<Rightarrow> NotAuthorized ''Not authorized to complete this task''
             | RlDenied retryAfter \<Rightarrow> RateLimitExceeded retryAfter), s)
     \<and> tasksRemove c (u_id args) s =
       (Inl (case limit c ''deleteTask'' uid of
               RlOk \<Rightarrow> NotAuthorized ''Not authorized to delete this task''
             | RlDenied retryAfter \<Rightarrow> RateLimitExceeded retryAfter), s)
     \<and> commentsCreate c (u_id args) content s =
       (Inl (case limit c ''createComment'' uid of
               RlOk \<Rightarrow> NotAuthorized ''Not authorized to comment on this task''
             | RlDenied retryAfter \<Rightarrow> RateLimitExceeded retryAfter), s)"
    if other: "getTaskById s (u_id args) = Some t" "t_userId t \<noteq> uid"
  proof -
    have 1: "tasksUpdate c args s =
       (Inl (case limit c ''updateTask'' uid of
               RlOk \<Rightarrow> NotAuthorized ''Not authorized to update this task''
             | RlDenied retryAfter \<Rightarrow> RateLimitExceeded retryAfter), s)"
      using assms other by (simp add: tasksUpdate_def throwE_def split: RateLimitStatus.splits)
    have 2: "tasksComplete c (u_id args) s =
       (Inl (case limit c ''updateTask'' uid of
               RlOk \<Rightarrow> NotAuthorized ''Not authorized to complete this task''
             | RlDenied retryAfter \<Rightarrow> RateLimitExceeded retryAfter), s)"
      using assms other
      by (simp add: tasksComplete_def throwE_def split: RateLimitStatus.splits)
    have 3: "tasksRemove c (u_id args) s =
       (Inl (case limit c ''deleteTask'' uid of
               RlOk \<Rightarrow> NotAuthorized ''Not authorized to delete this task''
             | RlDenied retryAfter \<Rightarrow> RateLimitExceeded retryAfter), s)"
      using assms other by (simp add: tasksRemove_def throwE_def split: RateLimitStatus.splits)
    have 4: "commentsCreate c (u_id args) content s =
       (Inl (case limit c ''createComment'' uid of
               RlOk \<Rightarrow> NotAuthorized ''Not authorized to comment on this task''
             | RlDenied retryAfter \<Rightarrow> RateLimitExceeded retryAfter), s)"
      using assms other
      by (simp add: commentsCreate_def throwE_def split: RateLimitStatus.splits)
    show ?thesis using 1 2 3 4 by blast
  qed
  have comments_part:
    "commentsUpdate c j content s =
       (Inl (case limit c ''updateComment'' uid of
               RlOk \<Rightarrow> NotAuthorized ''Not authorized to update this comment''
             | RlDenied retryAfter \<Rightarrow> RateLimitExceeded retryAfter), s)
     \<and> commentsRemove c j s =
       (Inl (case limit c ''deleteComment'' uid of
               RlOk \<Rightarrow> NotAuthorized ''Not authorized to delete this comment''
             | RlDenied retryAfter \<Rightarrow> RateLimitExceeded retryAfter), s)"
    if other: "getTaskCommentById s j = Some cm" "c_userId cm \<noteq> uid"
  proof -
    have 1: "commentsUpdate c j content s =
       (Inl (case limit c ''updateComment'' uid of
               RlOk \<Rightarrow> NotAuthorized ''Not authorized to update this comment''
             | RlDenied retryAfter \<Rightarrow> RateLimitExceeded retryAfter), s)"
      using assms other
      by (simp add: commentsUpdate_def throwE_def split: RateLimitStatus.splits)
    have 2: "commentsRemove c j s =
       (Inl (case limit c ''deleteComment'' uid of
               RlOk \<Rightarrow> NotAuthorized ''Not authorized to delete this comment''
             | RlDenied retryAfter \<Rightarrow> RateLimitExceeded retryAfter), s)"
      using assms other
      by (simp add: commentsRemove_def throwE_def split: RateLimitStatus.splits)
    show ?thesis using 1 2 by blast
  qed
  show ?thesis using tasks_part comments_part by blast
qed

text \<open>Alice tries each of the six operations on Bob's task 1 and Bob's comment 2, with
  otherwise valid arguments: first admitted by every bucket, then denied by every
  bucket.\<close>

theorem ownership_check_witness:
  "authUser exampleCtx = Some ''alice'' \<and> authUser deniedCtx = Some ''alice''
   \<and> getTaskById exampleStore 1 = Some bobTask \<and> t_userId bobTask \<noteq> ''alice''
   \<and> getTaskCommentById exampleStore 2 = Some bobComment \<and> c_userId bobComment \<noteq> ''alice''
   \<and> tasksUpdate exampleCtx (noChange\<lparr> u_id := 1, u_title := Some ''Mine now'' \<rparr>) exampleStore
        = (Inl (NotAuthorized ''Not authorized to update this task''), exampleStore)
   \<and> tasksComplete exampleCtx 1 exampleStore
        = (Inl (NotAuthorized ''Not authorized to complete this task''), exampleStore)
   \<and> tasksRemove exampleCtx 1 exampleStore
        = (Inl (NotAuthorized ''Not authorized to delete this task''), exampleStore)
   \<and> commentsCreate exampleCtx 1 ''hello'' exampleStore
        = (Inl (NotAuthorized ''Not authorized to comment on this task''), exampleStore)
   \<and> commentsUpdate exampleCtx 2 ''hello'' exampleStore
        = (Inl (NotAuthorized ''Not authorized to update this comment''), exampleStore)
   \<and> commentsRemove exampleCtx 2 exampleStore
        = (Inl (NotAuthorized ''Not authorized to delete this comment''), exampleStore)
   \<and> tasksUpdate deniedCtx (noChange\<lparr> u_id := 1, u_title := Some ''Mine now'' \<rparr>) exampleStore
        = (Inl (RateLimitExceeded 2000), exampleStore)
   \<and> tasksComplete deniedCtx 1 exampleStore = (Inl (RateLimitExceeded 2000), exampleStore)
   \<and> tasksRemove deniedCtx 1 exampleStore = (Inl (RateLimitExceeded 2000), exampleStore)
   \<and> commentsCreate deniedCtx 1 ''hello'' exampleStore
        = (Inl (RateLimitExceeded 2000), exampleStore)
   \<and> commentsUpdate deniedCtx 2 ''hello'' exampleStore
        = (Inl (RateLimitExceeded 2000), exampleStore)
   \<and> commentsRemove deniedCtx 2 exampleStore = (Inl (RateLimitExceeded 2000), exampleStore)"
proof -
  let ?args = "noChange\<lparr> u_id := 1, u_title := Some ''Mine now'' \<rparr>"
  have a: "authUser exampleCtx = Some ''alice''" by (simp add: exampleCtx_def)
  have a': "authUser deniedCtx = Some ''alice''" by (simp add: deniedCtx_def)
  have i: "u_id ?args = 1" by simp
  have g: "getTaskById exampleStore 1 = Some bobTask"
    by (simp add: getTaskById_def db_get_def exampleStore_def)
  have o: "t_userId bobTask \<noteq> ''alice''" by (simp add: bobTask_def)
  have gc: "getTaskCommentById exampleStore 2 = Some bobComment"
    by (simp add: getTaskCommentById_def db_get_def exampleStore_def)
  have oc: "c_userId bobComment \<noteq> ''alice''" by (simp add: bobComment_def)
  have l: "limit exampleCtx b ''alice'' = RlOk" for b by (simp add: exampleCtx_def)
  have l': "limit deniedCtx b ''alice'' = RlDenied 2000" for b by (simp add: deniedCtx_def)
  show ?thesis
    using ownership_check [OF a, of exampleStore ?args bobTask "''hello''" 2 bobComment]
      ownership_check [OF a', of exampleStore ?args bobTask "''hello''" 2 bobComment]
      a a' g o gc oc l l'
    by simp
qed

section \<open>C3: a denied create call\<close>

text \<open>
  C3: when the \<open>createTask\<close> bucket denies the caller's request, the create call fails
  with the rate-limit error carrying the bucket's retry-after duration, and the store it
  leaves is the store it found: no task and no activity record has been inserted.
\<close>

theorem create_rate_limited:
  assumes "authUser c = Some uid" and "limit c ''createTask'' uid = RlDenied retryAfter"
  shows "tasksCreate c args s = (Inl (RateLimitExceeded retryAfter), s)"
  using assms by (simp add: tasksCreate_def throwE_def)

theorem create_rate_limited_witness:
  "authUser deniedCtx = Some ''alice''
   \<and> limit deniedCtx ''createTask'' ''alice'' = RlDenied 2000
   \<and> tasksCreate deniedCtx newTaskArgs exampleStore
        = (Inl (RateLimitExceeded 2000), exampleStore)"
  using create_rate_limited [of deniedCtx "''alice''" 2000 newTaskArgs exampleStore]
  by (simp add: deniedCtx_def)

section \<open>C4: the position of a new task\<close>

text \<open>
  C4 as stated: the position of a new task is the caller's prior maximum position plus
  one. Positions are doubles, and reordering accepts any number as a position: once
  Alice's maximum is \<open>2^53\<close>, the sum \<open>maxPosition + 1\<close> rounds back to \<open>2^53\<close>, and
  her new task gets the position her old task already has.
\<close>

theorem create_position_counterexample:
  "priorMaxPosition farStore ''alice'' = 9007199254740992
   \<and> tasksCreate exampleCtx newTaskArgs farStore
       = (Inr 3,
          farStore
            \<lparr> tasks := tasks farStore @
                 [(3, \<lparr> t_userId = ''alice'', t_title = ''Call mum'', t_description = None,
                        t_status = StPending, t_priority = PrMedium, t_dueDate = None,
                        t_completedAt = None, t_position = 9007199254740992, t_tags = None,
                        t_createdAt = 5000, t_updatedAt = 5000 \<rparr>)],
              taskActivities :=
                [(4, \<lparr> a_taskId = 3, a_userId = ''alice'', a_action = ActCreated,
                        a_changes = None, a_createdAt = 5000 \<rparr>)],
              nextId := 5 \<rparr>)
   \<and> (9007199254740992 :: int) \<noteq> priorMaxPosition farStore ''alice'' + 1"
proof -
  have p: "priorMaxPosition farStore ''alice'' = 9007199254740992"
    by (simp add: priorMaxPosition_def userPositions_def example_defs)
  have m: "getMaxPositionForUser farStore ''alice'' = 9007199254740992"
    by (simp add: getMaxPositionForUser_eq p)
  have v: "valid (validateTaskInput 5000
                    \<lparr> ti_title = ''Call mum'', ti_description = None, ti_dueDate = None,
                      ti_tags = None \<rparr>)"
    by (simp add: validateTaskInput_def isValidTaskTitle_def isValidTaskDescription_def
          isValidTaskTags_def trim_def isWhiteSpace_def)
  have "tasksCreate exampleCtx newTaskArgs farStore
       = (Inr 3,
          farStore
            \<lparr> tasks := tasks farStore @
                 [(3, \<lparr> t_userId = ''alice'', t_title = ''Call mum'', t_description = None,
                        t_status = StPending, t_priority = PrMedium, t_dueDate = None,
                        t_completedAt = None, t_position = 9007199254740992, t_tags = None,
                        t_createdAt = 5000, t_updatedAt = 5000 \<rparr>)],
              taskActivities :=
                [(4, \<lparr> a_taskId = 3, a_userId = ''alice'', a_action = ActCreated,
                        a_changes = None, a_createdAt = 5000 \<rparr>)],
              nextId := 5 \<rparr>)"
    using m v
    by (simp add: tasksCreate_def exampleCtx_def newTaskArgs_def await_def returnE_def
          createTask_def createTaskActivity_def jsAdd_at_2_53 farStore_def exampleStore_def)
  with p show ?thesis by simp
qed

text \<open>
  C4, amended: for a successful create call by a caller whose prior maximum position
  (taken as 0 for a caller without tasks) is an integer of magnitude below \<open>2^53\<close>,
  the call appends one task, owned by the caller, whose position is that maximum plus
  one; so the first task of a user gets position 1.
\<close>

theorem create_position:
  assumes "tasksCreate c args s = (Inr taskId, s')" and "authUser c = Some uid"
    and "\<bar>priorMaxPosition s uid\<bar> < 2 ^ 53"
  shows "\<exists>t. tasks s' = tasks s @ [(taskId, t)] \<and> t_userId t = uid
             \<and> t_position t = priorMaxPosition s uid + 1"
proof -
  have "jsAdd (priorMaxPosition s uid) 1 = priorMaxPosition s uid + 1"
    using assms(3) by (intro jsAdd_exact) simp
  with assms(1,2) show ?thesis
    by (auto simp: tasksCreate_def await_def returnE_def throwE_def createTask_def
          createTaskActivity_def Let_def getMaxPositionForUser_eq
        split: RateLimitStatus.splits if_splits)
qed

text \<open>Alice has one task, at position 1; her new task gets position 2.\<close>

theorem create_position_witness:
  "tasksCreate exampleCtx newTaskArgs exampleStore
     = (Inr 3, snd (tasksCreate exampleCtx newTaskArgs exampleStore))
   \<and> authUser exampleCtx = Some ''alice''
   \<and> priorMaxPosition exampleStore ''alice'' = 1
   \<and> \<bar>priorMaxPosition exampleStore ''alice''\<bar> < 2 ^ 53
   \<and> (\<exists>t. tasks (snd (tasksCreate exampleCtx newTaskArgs exampleStore))
              = tasks exampleStore @ [(3, t)]
          \<and> t_userId t = ''alice'' \<and> t_position t = 2)"
proof -
  have p: "priorMaxPosition exampleStore ''alice'' = 1"
    by (simp add: priorMaxPosition_def userPositions_def example_defs)
  have b: "\<bar>priorMaxPosition exampleStore ''alice''\<bar> < 2 ^ 53"
    by (simp add: p)
  have j: "jsAdd 1 1 = 2" using jsAdd_exact [of 1 1] by simp
  have m: "getMaxPositionForUser exampleStore ''alice'' = 1"
    by (simp add: getMaxPositionForUser_eq p)
  have v: "valid (validateTaskInput 5000
                    \<lparr> ti_title = ''Call mum'', ti_description = None, ti_dueDate = None,
                      ti_tags = None \<rparr>)"
    by (simp add: validateTaskInput_def isValidTaskTitle_def isValidTaskDescription_def
          isValidTaskTags_def trim_def isWhiteSpace_def)
  have r: "tasksCreate exampleCtx newTaskArgs exampleStore
     = (Inr 3, snd (tasksCreate exampleCtx newTaskArgs exampleStore))"
    using m v
    by (simp add: tasksCreate_def exampleCtx_def newTaskArgs_def await_def returnE_def
          createTask_def createTaskActivity_def j exampleStore_def)
  have a: "authUser exampleCtx = Some ''alice''" by (simp add: exampleCtx_def)
  show ?thesis using create_position [OF r a b] r a p b by simp
qed

section \<open>C5: the audit record of a status change\<close>

text \<open>
  C5: a successful update call whose status argument differs from the task's prior
  status appends exactly one activity record; its action is \<open>completed\<close> when the new
  status is completed, and otherwise \<open>status_changed\<close> with the payload
  \<open>{from, to}\<close> made of the prior and the new status.
\<close>

theorem update_status_change_audit:
  assumes "tasksUpdate c args s = (Inr r, s')"
    and "authUser c = Some uid"
    and "getTaskById s (u_id args) = Some t"
    and "u_status args = Some st" and "st \<noteq> t_status t"
  shows "taskActivities s' = taskActivities s @
           [(nextId s,
             \<lparr> a_taskId = u_id args, a_userId = uid,
               a_action = (if st = StCompleted then ActCompleted else ActStatusChanged),
               a_changes = (if st = StCompleted then None
                            else Some (StatusChange (t_status t) st)),
               a_createdAt = now c \<rparr>)]"
proof -
  from tasksUpdate_Inr [OF assms(1)] assms(2,3)
  have pre: "limit c ''updateTask'' uid = RlOk" "t_userId t = uid"
    "validationRequested args \<longrightarrow> valid (updateValidation c args t)"
    by auto
  from tasksUpdate_ok [OF assms(2) pre(1) assms(3) pre(2) pre(3)] assms(1)
  have "taskActivities s' = taskActivities s @
          [(nextId s, \<lparr> a_taskId = aa_taskId (updateActivity uid args t),
                       a_userId = aa_userId (updateActivity uid args t),
                       a_action = aa_action (updateActivity uid args t),
                       a_changes = aa_changes (updateActivity uid args t),
                       a_createdAt = now c \<rparr>)]"
    by auto
  then show ?thesis
    using assms(4,5) by (simp add: updateActivity_def statusChange_def)
qed

text \<open>Alice moves her completed task 0 to in progress.\<close>

theorem update_status_change_audit_witness:
  "tasksUpdate exampleCtx (noChange\<lparr> u_status := Some StInProgress \<rparr>) exampleStore
     = (Inr 0,
        snd (tasksUpdate exampleCtx (noChange\<lparr> u_status := Some StInProgress \<rparr>) exampleStore))
   \<and> authUser exampleCtx = Some ''alice''
   \<and> getTaskById exampleStore 0 = Some aliceTask
   \<and> StInProgress \<noteq> t_status aliceTask
   \<and> taskActivities
        (snd (tasksUpdate exampleCtx (noChange\<lparr> u_status := Some StInProgress \<rparr>) exampleStore))
       = [(3, \<lparr> a_taskId = 0, a_userId = ''alice'', a_action = ActStatusChanged,
                a_changes = Some (StatusChange StCompleted StInProgress),
                a_createdAt = 5000 \<rparr>)]"
proof -
  let ?args = "noChange\<lparr> u_status := Some StInProgress \<rparr>"
  have r: "tasksUpdate exampleCtx ?args exampleStore
     = (Inr 0, snd (tasksUpdate exampleCtx ?args exampleStore))"
    by (simp add: model_defs example_defs)
  have a: "authUser exampleCtx = Some ''alice''" by (simp add: exampleCtx_def)
  have g: "getTaskById exampleStore (u_id ?args) = Some aliceTask"
    by (simp add: getTaskById_def db_get_def exampleStore_def noChange_def)
  have st: "u_status ?args = Some StInProgress" by simp
  have ne: "StInProgress \<noteq> t_status aliceTask" by (simp add: aliceTask_def)
  show ?thesis
    using update_status_change_audit [OF r a g st ne] r a g ne
    by (simp add: example_defs)
qed

section \<open>C6: reordering checks every task before it writes\<close>

text \<open>
  C6: when a reorder batch refers to a task that is missing or that the caller does not
  own, the call fails and the store is exactly as before: no position has been written,
  not even for the tasks of the batch that the caller owns.
\<close>

theorem reorder_checks_before_writing:
  assumes "u \<in> set updates"
    and "getTaskById s (r_id u) = None
         \<or> (\<exists>t. getTaskById s (r_id u) = Some t \<and> Some (t_userId t) \<noteq> authUser c)"
  shows "\<exists>e. tasksReorder c updates s = (Inl e, s)"
proof (cases "authUser c")
  case None
  then show ?thesis by (simp add: tasksReorder_def throwE_def)
next
  case (Some uid)
  with assms have "verifyOwnership s uid updates \<noteq> None"
    by (intro verifyOwnership_bad [of u]) auto
  with Some show ?thesis
    by (auto simp: tasksReorder_def throwE_def split: RateLimitStatus.splits)
qed

text \<open>Alice reorders her own task 0 and Bob's task 1 in one batch.\<close>

theorem reorder_checks_before_writing_witness:
  "\<lparr> r_id = 1, r_position = 8 \<rparr> \<in> set mixedBatch
   \<and> getTaskById exampleStore 0 = Some aliceTask \<and> Some (t_userId aliceTask) = authUser exampleCtx
   \<and> getTaskById exampleStore 1 = Some bobTask \<and> Some (t_userId bobTask) \<noteq> authUser exampleCtx
   \<and> tasksReorder exampleCtx mixedBatch exampleStore
        = (Inl (ReorderNotAuthorized 1), exampleStore)"
proof -
  have m: "\<lparr> r_id = 1, r_position = 8 \<rparr> \<in> set mixedBatch" by (simp add: mixedBatch_def)
  have g: "getTaskById exampleStore 1 = Some bobTask"
    by (simp add: getTaskById_def db_get_def exampleStore_def)
  have n: "Some (t_userId bobTask) \<noteq> authUser exampleCtx"
    by (simp add: bobTask_def exampleCtx_def)
  have h: "getTaskById exampleStore (r_id \<lparr> r_id = 1, r_position = 8 \<rparr>) = None
         \<or> (\<exists>t. getTaskById exampleStore (r_id \<lparr> r_id = 1, r_position = 8 \<rparr>) = Some t
                \<and> Some (t_userId t) \<noteq> authUser exampleCtx)"
    using g n by simp
  have "\<exists>e. tasksReorder exampleCtx mixedBatch exampleStore = (Inl e, exampleStore)"
    using reorder_checks_before_writing [OF m h] .
  moreover have "fst (tasksReorder exampleCtx mixedBatch exampleStore)
                   = Inl (ReorderNotAuthorized 1)"
    by (simp add: model_defs example_defs)
  ultimately show ?thesis
    using m g n
    by (auto simp: getTaskById_def db_get_def exampleStore_def aliceTask_def exampleCtx_def)
qed

section \<open>C7: the audit trail of the bulk delete\<close>

text \<open>
  C7 says that every operation that creates, updates, completes or deletes a task,
  the bulk delete of completed tasks included, writes an audit record for each task it
  affects. The bulk delete writes none: Alice deletes her completed tasks, task 0 is
  gone, one deletion is reported, and the activity table is as empty as before.
\<close>

theorem deleteCompleted_logs_nothing:
  "tasksDeleteCompleted exampleCtx exampleStore
     = (Inr 1, exampleStore\<lparr> tasks := [(1, bobTask)] \<rparr>)
   \<and> taskActivities (exampleStore\<lparr> tasks := [(1, bobTask)] \<rparr>) = []"
  by (simp add: model_defs example_defs)

section \<open>C8: errors of the record access layer\<close>





















section \<open>C9: validation in the update handler\<close>

text \<open>
  C9 says that an update call enforces the field constraints on the fields it is given,
  an empty title included, and fails without writing when one is violated. The handler
  validates only when one of title, description, due date and tags is truthy, and
  checks \<open>args.title || task.title\<close>; the empty string is falsy, so an update whose
  title is the empty string is never checked: Alice sets the title of her task 0 to the
  empty string, the call succeeds, and the stored title is empty.
\<close>

theorem update_accepts_empty_title:
  "tasksUpdate exampleCtx (noChange\<lparr> u_title := Some [] \<rparr>) exampleStore
     = (Inr 0,
        exampleStore
          \<lparr> tasks := [(0, aliceTask\<lparr> t_title := [], t_updatedAt := 5000 \<rparr>), (1, bobTask)],
            taskActivities :=
              [(3, \<lparr> a_taskId = 0, a_userId = ''alice'', a_action = ActUpdated,
                      a_changes = None, a_createdAt = 5000 \<rparr>)],
            nextId := 4 \<rparr>)
   \<and> \<not> isValidTaskTitle (t_title (aliceTask\<lparr> t_title := [], t_updatedAt := 5000 \<rparr>))"
  by (simp add: model_defs example_defs)

section \<open>C10: completing a completed task again\<close>

text \<open>
  C10 as stated: for every task that is already completed, an update with status
  completed succeeds. The handler's checks come first: the same update of Alice's
  completed task 0 fails with the rate-limit error when her bucket denies the call, and
  with the validation error when it also carries a blank title; in both cases nothing is
  written.
\<close>

theorem update_completed_again_counterexample:
  "getTaskById exampleStore 0 = Some aliceTask \<and> t_status aliceTask = StCompleted
   \<and> tasksUpdate deniedCtx (noChange\<lparr> u_status := Some StCompleted \<rparr>) exampleStore
        = (Inl (RateLimitExceeded 2000), exampleStore)
   \<and> tasksUpdate exampleCtx (noChange\<lparr> u_status := Some StCompleted, u_title := Some '' '' \<rparr>)
        exampleStore
        = (Inl (ValidationFailed ''Title must be between 1 and 200 characters''), exampleStore)"
  by (simp add: model_defs example_defs)

text \<open>
  C10, amended: an update with status completed of a task that is already completed,
  called by the task's authenticated owner, admitted by the \<open>updateTask\<close> rate-limit
  bucket and with fields that pass the handler's validation, succeeds; it appends one
  activity record with action \<open>completed\<close>, and the task keeps the completion timestamp
  it had.
\<close>

theorem update_completed_again:
  assumes "authUser c = Some uid" and "limit c ''updateTask'' uid = RlOk"
    and "getTaskById s (u_id args) = Some t" and "t_userId t = uid"
    and "validationRequested args \<longrightarrow> valid (updateValidation c args t)"
    and "t_status t = StCompleted" and "u_status args = Some StCompleted"
  shows "\<exists>s' t'. tasksUpdate c args s = (Inr (u_id args), s')
           \<and> taskActivities s' = taskActivities s @
                [(nextId s, \<lparr> a_taskId = u_id args, a_userId = uid, a_action = ActCompleted,
                              a_changes = None, a_createdAt = now c \<rparr>)]
           \<and> getTaskById s' (u_id args) = Some t'
           \<and> t_status t' = StCompleted
           \<and> t_completedAt t' = t_completedAt t"
proof -
  from tasksUpdate_ok [OF assms(1-5)] obtain tbl where
    r: "tasksUpdate c args s =
           (Inr (u_id args),
            s\<lparr> tasks := tbl,
               taskActivities := taskActivities s @
                 [(nextId s, \<lparr> a_taskId = aa_taskId (updateActivity uid args t),
                              a_userId = aa_userId (updateActivity uid args t),
                              a_action = aa_action (updateActivity uid args t),
                              a_changes = aa_changes (updateActivity uid args t),
                              a_createdAt = now c \<rparr>)],
               nextId := Suc (nextId s) \<rparr>)"
    and m: "map_of tbl (u_id args) = Some (patchTask (updateData c args t) (now c) t)"
    by blast
  show ?thesis
    using r m assms(6,7)
    by (simp add: updateActivity_def getTaskById_def db_get_def patchTask_def updateData_def)
qed

text \<open>Alice completes her completed task 0 again, renaming it in the same call; it was
  completed at 1000 and the call is made at 5000.\<close>

theorem update_completed_again_witness:
  "authUser exampleCtx = Some ''alice'' \<and> limit exampleCtx ''updateTask'' ''alice'' = RlOk
   \<and> getTaskById exampleStore 0 = Some aliceTask \<and> t_userId aliceTask = ''alice''
   \<and> validationRequested (noChange\<lparr> u_status := Some StCompleted, u_title := Some ''Buy oat milk'' \<rparr>)
   \<and> valid (updateValidation exampleCtx
               (noChange\<lparr> u_status := Some StCompleted, u_title := Some ''Buy oat milk'' \<rparr>)
               aliceTask)
   \<and> t_status aliceTask = StCompleted \<and> t_completedAt aliceTask = Some 1000
   \<and> (\<exists>s' t'. tasksUpdate exampleCtx
                  (noChange\<lparr> u_status := Some StCompleted, u_title := Some ''Buy oat milk'' \<rparr>)
                  exampleStore = (Inr 0, s')
           \<and> taskActivities s' =
                [(3, \<lparr> a_taskId = 0, a_userId = ''alice'', a_action = ActCompleted,
                       a_changes = None, a_createdAt = 5000 \<rparr>)]
           \<and> getTaskById s' 0 = Some t'
           \<and> t_status t' = StCompleted
           \<and> t_completedAt t' = Some 1000)"
proof -
  let ?args = "noChange\<lparr> u_status := Some StCompleted, u_title := Some ''Buy oat milk'' \<rparr>"
  have a: "authUser exampleCtx = Some ''alice''" by (simp add: exampleCtx_def)
  have l: "limit exampleCtx ''updateTask'' ''alice'' = RlOk" by (simp add: exampleCtx_def)
  have g: "getTaskById exampleStore (u_id ?args) = Some aliceTask"
    by (simp add: getTaskById_def db_get_def exampleStore_def noChange_def)
  have o: "t_userId aliceTask = ''alice''" by (simp add: aliceTask_def)
  have vr: "validationRequested ?args"
    by (simp add: validationRequested_def truthyString_def)
  have vv: "valid (updateValidation exampleCtx ?args aliceTask)"
    by (simp add: updateValidation_def validateTaskInput_def noChange_def orElse_def
          isValidTaskTitle_def isValidTaskDescription_def isValidTaskTags_def trim_def
          isWhiteSpace_def)
  have v: "validationRequested ?args \<longrightarrow> valid (updateValidation exampleCtx ?args aliceTask)"
    using vv by simp
  have c: "t_status aliceTask = StCompleted" by (simp add: aliceTask_def)
  have st: "u_status ?args = Some StCompleted" by simp
  show ?thesis
    using update_completed_again [OF a l g o v c st] a l g o vr vv c
    by (simp add: example_defs)
qed

end
